theory Spec2Isabelle
  imports Main "HOL-Library.Sublist"
begin

section \<open>A Node.js CGI handler: header gate, body reader, main flow, error interceptor\<close>

text \<open>
  The program is \<^verbatim>\<open>src/index.js\<close>. It keeps one module-level variable, \<^verbatim>\<open>httpHeader\<close>,
  writes its response with \<^verbatim>\<open>console.log\<close>, reads \<^verbatim>\<open>process.env\<close> and, for a POST
  request, drains \<^verbatim>\<open>process.stdin\<close>. The model passes the process state explicitly.
\<close>

subsection \<open>JavaScript values\<close>

text \<open>
  The values the program handles: \<^verbatim>\<open>null\<close>, \<^verbatim>\<open>undefined\<close>, strings, the object
  \<^verbatim>\<open>process.env\<close> (string keys, string values, in enumeration order) and any other object
  (a thrown \<^verbatim>\<open>Error\<close>, say), which stays opaque. A string is represented by its UTF-8
  encoding, the bytes that \<^verbatim>\<open>console.log\<close> puts on standard output for it.
\<close>

type_synonym env = "(string \<times> string) list"

datatype 'e jsval = Null | Undefined | Str string | Env env | Obj 'e

text \<open>ToBoolean, as used by \<^verbatim>\<open>!x\<close>, \<^verbatim>\<open>if(x)\<close> and \<^verbatim>\<open>x || y\<close>.\<close>

fun truthy :: "'e jsval \<Rightarrow> bool" where
  "truthy Null = False"
| "truthy Undefined = False"
| "truthy (Str s) = (s \<noteq> [])"
| "truthy (Env e) = True"
| "truthy (Obj x) = True"

text \<open>ToString inside a template literal; only strings and \<^verbatim>\<open>undefined\<close> reach it here.\<close>

fun template_string :: "string option \<Rightarrow> string" where
  "template_string (Some v) = v"
| "template_string None = ''undefined''"

subsection \<open>The output stream\<close>

text \<open>
  \<^verbatim>\<open>console.log(a1, ..., an)\<close> formats its arguments and writes the text followed by one
  line feed. With a single string argument the text is that string. With several arguments
  whose first one is a string free of \<^verbatim>\<open>%\<close> (every such call of this program), and with a
  first argument that is not a string, the arguments are joined by single spaces: a string is
  taken as it is, any other value goes through \<^verbatim>\<open>util.inspect\<close>. The rendering of
  \<^verbatim>\<open>undefined\<close> and \<^verbatim>\<open>null\<close> is fixed; the rendering of objects belongs to the Node.js
  runtime and is the parameter \<open>inspect\<close> of the model.
\<close>

fun formatValue :: "('e jsval \<Rightarrow> string) \<Rightarrow> 'e jsval \<Rightarrow> string" where
  "formatValue inspect (Str s) = s"
| "formatValue inspect Undefined = ''undefined''"
| "formatValue inspect Null = ''null''"
| "formatValue inspect v = inspect v"

fun format :: "('e jsval \<Rightarrow> string) \<Rightarrow> 'e jsval list \<Rightarrow> string" where
  "format inspect [] = []"
| "format inspect [v] = formatValue inspect v"
| "format inspect (v # w # vs) = formatValue inspect v @ '' '' @ format inspect (w # vs)"

subsection \<open>The input stream\<close>

text \<open>
  \<^verbatim>\<open>process.stdin\<close> delivers chunks one after the other and then either ends or fails
  with an error. The program never calls \<^verbatim>\<open>setEncoding\<close>, so a chunk is a
  \<^verbatim>\<open>Buffer\<close>: a sequence of bytes, cut wherever the operating system cut the input.
\<close>

datatype 'e stream = End | Failure "'e jsval" | Chunk string "'e stream"

text \<open>
  \<^verbatim>\<open>postBody += chunk\<close> converts the Buffer with \<^verbatim>\<open>Buffer.prototype.toString()\<close>, which
  decodes these bytes, and no others, as UTF-8: a well-formed sequence gives its character
  (here: stays as it is), and every ill-formed or truncated sequence gives one U+FFFD, whose
  encoding is \<^verbatim>\<open>EF BF BD\<close>. In \<open>utf8_decode\<close>, \<open>seen\<close> holds the bytes of the sequence
  under way, \<open>needed\<close> counts those it still lacks, and \<open>lower\<close> and \<open>upper\<close> bound the
  next byte. A byte outside the bounds ends the sequence with U+FFFD and is decoded again as
  the start of a new one.
\<close>

definition REPLACEMENT :: string where
  "REPLACEMENT = [CHR 0xEF, CHR 0xBF, CHR 0xBD]"

fun utf8_decode :: "string \<Rightarrow> nat \<Rightarrow> nat \<Rightarrow> nat \<Rightarrow> string \<Rightarrow> string" where
  "utf8_decode seen needed lower upper [] = (if needed = 0 then [] else REPLACEMENT)"
| "utf8_decode seen needed lower upper (b # bs) =
    (let n = of_char b :: nat in
     if needed = 0 then
       (if n \<le> 0x7F then b # utf8_decode [] 0 0x80 0xBF bs
        else if 0xC2 \<le> n \<and> n \<le> 0xDF then utf8_decode [b] 1 0x80 0xBF bs
        else if 0xE0 \<le> n \<and> n \<le> 0xEF
          then utf8_decode [b] 2 (if n = 0xE0 then 0xA0 else 0x80) (if n = 0xED then 0x9F else 0xBF) bs
        else if 0xF0 \<le> n \<and> n \<le> 0xF4
          then utf8_decode [b] 3 (if n = 0xF0 then 0x90 else 0x80) (if n = 0xF4 then 0x8F else 0xBF) bs
        else REPLACEMENT @ utf8_decode [] 0 0x80 0xBF bs)
     else if n < lower \<or> upper < n then REPLACEMENT @ utf8_decode [] 0 0x80 0xBF (b # bs)
     else if needed = 1 then seen @ [b] @ utf8_decode [] 0 0x80 0xBF bs
     else utf8_decode (seen @ [b]) (needed - 1) 0x80 0xBF bs)"

definition Buffer_toString :: "string \<Rightarrow> string" where
  "Buffer_toString buf = utf8_decode [] 0 0x80 0xBF buf"

subsection \<open>The process state\<close>

text \<open>
  \<open>httpHeader\<close> is the module variable of that name (line 44, initially \<^verbatim>\<open>null\<close>);
  \<open>stdout\<close> lists the texts written by the successive \<^verbatim>\<open>console.log\<close> calls, oldest
  first; \<open>stdin\<close> is what is left of the input stream.
\<close>

record 'e process =
  httpHeader :: "'e jsval"
  stdout :: "string list"
  stdin :: "'e stream"

definition start :: "'e stream \<Rightarrow> 'e process" where
  "start input = \<lparr>httpHeader = Null, stdout = [], stdin = input\<rparr>"

definition console_log :: "('e jsval \<Rightarrow> string) \<Rightarrow> 'e jsval list \<Rightarrow> 'e process \<Rightarrow> 'e process" where
  "console_log inspect args s = s\<lparr>stdout := stdout s @ [format inspect args]\<rparr>"

text \<open>The bytes on standard output: every written text is followed by a line feed.\<close>

definition stdout_bytes :: "'e process \<Rightarrow> string" where
  "stdout_bytes s = concat (map (\<lambda>m. m @ ''\<newline>'') (stdout s))"

text \<open>The texts written between an earlier state \<open>s\<close> and a later state \<open>s'\<close>.\<close>

definition written :: "'e process \<Rightarrow> 'e process \<Rightarrow> string list" where
  "written s s' = drop (length (stdout s)) (stdout s')"

subsection \<open>The header table\<close>

record header_def =
  type :: string
  httpHeader_str :: string

definition plain :: header_def where
  "plain = \<lparr>type = ''plain'', httpHeader_str = ''Content-Type: text/plain; charset=UTF-8\<newline>\<newline>''\<rparr>"

definition html :: header_def where
  "html = \<lparr>type = ''html'', httpHeader_str = ''Content-Type: text/html; charset=UTF-8\<newline>\<newline>''\<rparr>"

text \<open>
  \<^verbatim>\<open>httpHeaders\<close> is an object literal, so \<^verbatim>\<open>httpHeaders[type]\<close> finds its two own
  properties and, for any other key, what the object inherits from \<^verbatim>\<open>Object.prototype\<close>:
  eleven functions and the accessor \<^verbatim>\<open>__proto__\<close>, which yields the prototype object.
  All twelve are truthy and none has a property \<^verbatim>\<open>type\<close> or \<^verbatim>\<open>httpHeader\<close>. For every
  remaining key the lookup gives \<^verbatim>\<open>undefined\<close>.
\<close>

definition Object_prototype :: "string list" where
  "Object_prototype =
    [''constructor'', ''__defineGetter__'', ''__defineSetter__'', ''hasOwnProperty'',
     ''__lookupGetter__'', ''__lookupSetter__'', ''isPrototypeOf'', ''propertyIsEnumerable'',
     ''toString'', ''valueOf'', ''__proto__'', ''toLocaleString'']"

datatype member = Own header_def | Inherited string | Absent

definition httpHeaders :: "string \<Rightarrow> member" where
  "httpHeaders key =
    (if key = ''plain'' then Own plain
     else if key = ''html'' then Own html
     else if key \<in> set Object_prototype then Inherited key
     else Absent)"

text \<open>\<^verbatim>\<open>httpHeaders[type] || httpHeaders.plain\<close>: only \<^verbatim>\<open>undefined\<close> is falsy here.\<close>

fun or_plain :: "member \<Rightarrow> member" where
  "or_plain Absent = Own plain"
| "or_plain m = m"

text \<open>The property reads \<^verbatim>\<open>.httpHeader\<close> and \<^verbatim>\<open>.type\<close> on the value found.\<close>

fun get_httpHeader :: "member \<Rightarrow> 'e jsval" where
  "get_httpHeader (Own h) = Str (httpHeader_str h)"
| "get_httpHeader m = Undefined"

fun get_type :: "member \<Rightarrow> 'e jsval" where
  "get_type (Own h) = Str (type h)"
| "get_type m = Undefined"

subsection \<open>writeHttpHeader (lines 51-57)\<close>

definition writeHttpHeader :: "('e jsval \<Rightarrow> string) \<Rightarrow> string \<Rightarrow> 'e process \<Rightarrow> 'e process" where
  "writeHttpHeader inspect ty s =
    (if httpHeader s \<noteq> Null then s
     else
       let specifiedHttpHeader = or_plain (httpHeaders ty);
           s1 = console_log inspect [get_httpHeader specifiedHttpHeader] s
       in s1\<lparr>httpHeader := get_type specifiedHttpHeader\<rparr>)"

subsection \<open>onError (lines 64-75)\<close>

definition onError :: "('e jsval \<Rightarrow> string) \<Rightarrow> 'e jsval \<Rightarrow> 'e process \<Rightarrow> 'e process" where
  \<open>onError inspect error s =
    (let s1 = (if \<not> truthy (httpHeader s) then writeHttpHeader inspect (type plain) s else s)
     in if httpHeader s1 = Str (type html)
        then console_log inspect
               [Str ''<pre style="color: #f00; font-weight: bold;">Error :<br>'', error, Str ''</pre>''] s1
        else console_log inspect [Str ''\<newline>Error :'', error] s1)\<close>

subsection \<open>readPostBody (lines 96-107)\<close>

text \<open>
  The \<^verbatim>\<open>for await\<close> loop: each chunk is converted to a string, on its own, and appended
  to \<^verbatim>\<open>postBody\<close>; the end of the stream leaves the loop, a stream error is thrown out of
  it. The result is the error or the string, together with what is left of the stream.
\<close>

fun drain :: "string \<Rightarrow> 'e stream \<Rightarrow> ('e jsval + string) \<times> 'e stream" where
  "drain postBody End = (Inr postBody, End)"
| "drain postBody (Failure e) = (Inl e, Failure e)"
| "drain postBody (Chunk chunk rest) = drain (postBody @ Buffer_toString chunk) rest"

definition readPostBody :: "'e process \<Rightarrow> ('e jsval + string) \<times> 'e process" where
  "readPostBody s = (let (r, rest) = drain [] (stdin s) in (r, s\<lparr>stdin := rest\<rparr>))"

subsection \<open>main (lines 118-155)\<close>

definition preamble :: string where
  \<open>preamble = ''<!DOCTYPE html>\<newline><html lang="ja">\<newline>  <head>\<newline>    <meta charset="UTF-8">\<newline>    <meta http-equiv="X-UA-Compatible" content="IE=Edge">\<newline>    <meta name="viewport" content="width=device-width, initial-scale=1">\<newline>    <title>Hello Node.js CGI</title>\<newline>  </head>\<newline>  <body>''\<close>

definition form :: "env \<Rightarrow> string" where
  \<open>form penv =
    ''<form action="'' @ template_string (map_of penv ''SCRIPT_NAME'') @ ''" method="POST">\<newline>  <input type="text" name="text" value="">\<newline>  <button name="submit-btn" value="submit-btn-value">Post Submit</button>\<newline></form>''\<close>

definition epilogue :: string where
  \<open>epilogue = ''  </body>\<newline></html>''\<close>

definition main :: "('e jsval \<Rightarrow> string) \<Rightarrow> env \<Rightarrow> 'e jsval \<Rightarrow> 'e process \<Rightarrow> 'e process" where
  "main inspect penv postBody s =
    (let s1 = writeHttpHeader inspect (type html) s;
         s2 = console_log inspect [Str preamble] s1;
         s3 = console_log inspect [Str ''<h1>Hello Node.js CGI</h1>''] s2;
         s4 = console_log inspect [Str ''<pre>'', Env penv, Str ''</pre>''] s3;
         s5 = (if truthy postBody
               then console_log inspect [Str ''<pre>'', postBody, Str ''</pre>'']
                      (console_log inspect [Str ''<h2>Post Body</h2>'']
                        (console_log inspect [Str ''<hr>''] s4))
               else s4);
         s6 = console_log inspect [Str ''<hr>''] s5;
         s7 = console_log inspect [Str ''<h2>POST Test</h2>''] s6;
         s8 = console_log inspect [Str (form penv)] s7
     in console_log inspect [Str epilogue] s8)"

subsection \<open>The entry point (lines 161-176)\<close>

definition entry :: "('e jsval \<Rightarrow> string) \<Rightarrow> env \<Rightarrow> 'e process \<Rightarrow> 'e process" where
  "entry inspect penv s =
    (if map_of penv ''REQUEST_METHOD'' = Some ''POST''
     then (case readPostBody s of
             (Inr postBody, s1) \<Rightarrow> main inspect penv (Str postBody) s1
           | (Inl error, s1) \<Rightarrow> onError inspect error s1)
     else main inspect penv Undefined s)"

subsection \<open>The dump of a small environment\<close>

text \<open>
  \<^verbatim>\<open>util.inspect\<close> prints \<^verbatim>\<open>process.env\<close> as an object literal: each property as its
  name, a colon, a space and its value, a string value between single quotes. A name made of
  capitals, digits and underscores is printed bare, and a value of printable ASCII characters
  other than the single quote and the backslash is printed unescaped. The properties stand
  on one line, between \<^verbatim>\<open>{ \<close> and \<^verbatim>\<open> }\<close> and separated by a comma and a space, when
  twice their number plus 11 plus their lengths stays within 80 columns; an object without
  properties is \<^verbatim>\<open>{}\<close>. \<open>node_inspect\<close> fixes the rendering of these environments only;
  every other value keeps the rendering \<open>other\<close> given as parameter.
\<close>

definition env_name :: "string \<Rightarrow> bool" where
  "env_name k =
    (case k of
       [] \<Rightarrow> False
     | c # cs \<Rightarrow> c \<in> set ''ABCDEFGHIJKLMNOPQRSTUVWXYZ''
                \<and> list_all (\<lambda>d. d \<in> set ''ABCDEFGHIJKLMNOPQRSTUVWXYZ0123456789_'') cs)"

definition unescaped :: "string \<Rightarrow> bool" where
  "unescaped v =
    list_all (\<lambda>c. (0x20 \<le> (of_char c :: nat) \<and> (of_char c :: nat) \<le> 0x26)
                 \<or> (0x28 \<le> (of_char c :: nat) \<and> (of_char c :: nat) \<le> 0x5B)
                 \<or> (0x5D \<le> (of_char c :: nat) \<and> (of_char c :: nat) \<le> 0x7E)) v"

definition property :: "string \<times> string \<Rightarrow> string" where
  "property kv = fst kv @ '': '' @ [CHR 0x27] @ snd kv @ [CHR 0x27]"

definition one_line :: "env \<Rightarrow> bool" where
  "one_line penv =
    (distinct (map fst penv)
     \<and> list_all (\<lambda>kv. env_name (fst kv) \<and> unescaped (snd kv)) penv
     \<and> 2 * length penv + 11 + sum_list (map (\<lambda>kv. length (property kv)) penv) \<le> 80)"

fun join_comma :: "string list \<Rightarrow> string" where
  "join_comma [] = []"
| "join_comma [p] = p"
| "join_comma (p # q # ps) = p @ '', '' @ join_comma (q # ps)"

fun node_inspect :: "('e jsval \<Rightarrow> string) \<Rightarrow> 'e jsval \<Rightarrow> string" where
  "node_inspect other (Env penv) =
    (if one_line penv
     then (if penv = [] then ''{}'' else ''{ '' @ join_comma (map property penv) @ '' }'')
     else other (Env penv))"
| "node_inspect other v = other v"

text \<open>A sequence of calls of the header gate, one kind after the other.\<close>

definition writeHttpHeader_calls :: "('e jsval \<Rightarrow> string) \<Rightarrow> string list \<Rightarrow> 'e process \<Rightarrow> 'e process" where
  "writeHttpHeader_calls inspect tys s = foldl (\<lambda>s ty. writeHttpHeader inspect ty s) s tys"

text \<open>
  The header blocks among a list of written texts: a text is a header block when it is one
  of the two header strings of the table.
\<close>

definition header_blocks :: "string list \<Rightarrow> string list" where
  "header_blocks ms = filter (\<lambda>m. m = httpHeader_str plain \<or> m = httpHeader_str html) ms"

section \<open>Basic facts\<close>

lemma console_log_sel [simp]:
  "stdout (console_log inspect args s) = stdout s @ [format inspect args]"
  "httpHeader (console_log inspect args s) = httpHeader s"
  "stdin (console_log inspect args s) = stdin s"
  by (simp_all add: console_log_def)

lemma written_append: "stdout s' = stdout s @ ms \<Longrightarrow> written s s' = ms"
  by (simp add: written_def)

lemma get_type_not_Null [simp]: "get_type m \<noteq> Null"
  by (cases m) simp_all

subsection \<open>The header gate\<close>

text \<open>With the variable set, the call returns at its first line.\<close>

lemma writeHttpHeader_set: "httpHeader s \<noteq> Null \<Longrightarrow> writeHttpHeader inspect ty s = s"
  by (simp add: writeHttpHeader_def)

text \<open>With the variable still \<^verbatim>\<open>null\<close>, the call writes once and assigns the variable.\<close>

lemma writeHttpHeader_unset:
  "httpHeader s = Null \<Longrightarrow>
   writeHttpHeader inspect ty s =
     s\<lparr>stdout := stdout s @ [formatValue inspect (get_httpHeader (or_plain (httpHeaders ty)))],
       httpHeader := get_type (or_plain (httpHeaders ty))\<rparr>"
  by (simp add: writeHttpHeader_def console_log_def Let_def)

lemma writeHttpHeader_not_Null: "httpHeader (writeHttpHeader inspect ty s) \<noteq> Null"
  by (simp add: writeHttpHeader_def Let_def)

lemma writeHttpHeader_stdin [simp]: "stdin (writeHttpHeader inspect ty s) = stdin s"
  by (simp add: writeHttpHeader_def Let_def)

lemma writeHttpHeader_calls_set:
  "httpHeader s \<noteq> Null \<Longrightarrow> writeHttpHeader_calls inspect tys s = s"
  unfolding writeHttpHeader_calls_def
  by (induction tys) (simp_all add: writeHttpHeader_set)

text \<open>
  Whatever the kinds, only the first call of a sequence has an effect: every later call
  leaves the output and the variable as they are.
\<close>

lemma writeHttpHeader_calls_Cons:
  "writeHttpHeader_calls inspect (ty # tys) s = writeHttpHeader inspect ty s"
proof -
  have "writeHttpHeader_calls inspect (ty # tys) s =
        writeHttpHeader_calls inspect tys (writeHttpHeader inspect ty s)"
    by (simp add: writeHttpHeader_calls_def)
  then show ?thesis
    by (simp add: writeHttpHeader_calls_set writeHttpHeader_not_Null)
qed

text \<open>
  A key that \<^verbatim>\<open>Object.prototype\<close> does not define selects \<^verbatim>\<open>html\<close> when it is
  \<^verbatim>\<open>'html'\<close> and \<^verbatim>\<open>plain\<close> otherwise; a sequence of calls starting with such a key
  writes that one header block and records its kind.
\<close>

lemma or_plain_own_keys:
  "ty \<notin> set Object_prototype \<Longrightarrow>
   or_plain (httpHeaders ty) = Own (if ty = ''html'' then html else plain)"
  by (simp add: httpHeaders_def)

lemma writeHttpHeader_calls_own_keys:
  assumes "httpHeader s = Null" and "ty \<notin> set Object_prototype"
  shows "writeHttpHeader_calls inspect (ty # tys) s =
         s\<lparr>stdout := stdout s @ [httpHeader_str (if ty = ''html'' then html else plain)],
           httpHeader := Str (if ty = ''html'' then ''html'' else ''plain'')\<rparr>"
  using assms
  by (simp add: writeHttpHeader_calls_Cons writeHttpHeader_unset or_plain_own_keys html_def plain_def)

subsection \<open>The body reader\<close>

text \<open>Bytes below \<^verbatim>\<open>80\<close> decode to themselves, so ASCII chunks are appended as they are.\<close>

lemma utf8_decode_ascii:
  "list_all (\<lambda>b. (of_char b :: nat) \<le> 0x7F) bs \<Longrightarrow> utf8_decode seen 0 lower upper bs = bs"
  by (induction bs arbitrary: seen lower upper) (simp_all add: Let_def)

lemma Buffer_toString_ascii:
  "list_all (\<lambda>b. (of_char b :: nat) \<le> 0x7F) buf \<Longrightarrow> Buffer_toString buf = buf"
  by (simp add: Buffer_toString_def utf8_decode_ascii)

lemma concat_Buffer_toString_ascii:
  "list_all (\<lambda>b. (of_char b :: nat) \<le> 0x7F) (concat chunks) \<Longrightarrow>
   concat (map Buffer_toString chunks) = concat chunks"
  by (induction chunks) (simp_all add: Buffer_toString_ascii)

text \<open>The loop returns the concatenation of the separately decoded chunks.\<close>

lemma drain_chunks:
  "drain postBody (foldr Chunk chunks rest) =
   drain (postBody @ concat (map Buffer_toString chunks)) rest"
  by (induction chunks arbitrary: postBody) simp_all

lemma readPostBody_chunks:
  "fst (readPostBody (s\<lparr>stdin := foldr Chunk chunks End\<rparr>)) =
     Inr (concat (map Buffer_toString chunks))"
  "fst (readPostBody (s\<lparr>stdin := foldr Chunk chunks (Failure e)\<rparr>)) = Inl e"
  by (simp_all add: readPostBody_def drain_chunks)

text \<open>
  For ASCII input the result is the input, however it was cut into chunks; chunks
  \<^verbatim>\<open>a\<close>, \<^verbatim>\<open>b\<close>, \<^verbatim>\<open>c\<close> give \<^verbatim>\<open>abc\<close>.
\<close>

lemma readPostBody_ascii:
  "list_all (\<lambda>b. (of_char b :: nat) \<le> 0x7F) (concat chunks) \<Longrightarrow>
   fst (readPostBody (s\<lparr>stdin := foldr Chunk chunks End\<rparr>)) = Inr (concat chunks)"
  by (simp add: readPostBody_chunks concat_Buffer_toString_ascii)

lemma readPostBody_abc:
  "concat chunks = ''abc'' \<Longrightarrow>
   fst (readPostBody (s\<lparr>stdin := foldr Chunk chunks End\<rparr>)) = Inr ''abc''"
  using readPostBody_ascii [of chunks s] by simp

subsection \<open>The main flow and the entry point\<close>

text \<open>
  What \<open>main\<close> writes, in order: the header block if none was written before, the
  preamble, the title, the dump of the environment, the body section when the body is truthy,
  the rule, the form title, the form and the epilogue.
\<close>

lemma main_stdout:
  "stdout (main inspect penv postBody s) =
     stdout s @ (if httpHeader s = Null then [httpHeader_str html] else []) @
     [preamble, ''<h1>Hello Node.js CGI</h1>'', ''<pre> '' @ inspect (Env penv) @ '' </pre>''] @
     (if truthy postBody
      then [''<hr>'', ''<h2>Post Body</h2>'', ''<pre> '' @ formatValue inspect postBody @ '' </pre>'']
      else []) @
     [''<hr>'', ''<h2>POST Test</h2>'', form penv, epilogue]"
  by (cases "httpHeader s = Null")
     (simp_all add: main_def Let_def writeHttpHeader_unset writeHttpHeader_set httpHeaders_def html_def)

lemma main_httpHeader:
  "httpHeader (main inspect penv postBody s) =
     (if httpHeader s = Null then Str ''html'' else httpHeader s)"
  by (cases "httpHeader s = Null")
     (simp_all add: main_def Let_def writeHttpHeader_unset writeHttpHeader_set httpHeaders_def html_def)

lemma main_stdin: "stdin (main inspect penv postBody s) = stdin s"
  by (simp add: main_def Let_def)

lemma main_written:
  "written s (main inspect penv postBody s) =
     (if httpHeader s = Null then [httpHeader_str html] else []) @
     [preamble, ''<h1>Hello Node.js CGI</h1>'', ''<pre> '' @ inspect (Env penv) @ '' </pre>''] @
     (if truthy postBody
      then [''<hr>'', ''<h2>Post Body</h2>'', ''<pre> '' @ formatValue inspect postBody @ '' </pre>'']
      else []) @
     [''<hr>'', ''<h2>POST Test</h2>'', form penv, epilogue]"
  by (rule written_append) (rule main_stdout)

text \<open>The heading of the body section differs from every other text of the main flow.\<close>

lemma Post_Body_heading_elsewhere:
  "''<h2>Post Body</h2>'' \<noteq> httpHeader_str html"
  "''<h2>Post Body</h2>'' \<noteq> preamble"
  "''<h2>Post Body</h2>'' \<noteq> form penv"
  "''<h2>Post Body</h2>'' \<noteq> epilogue"
  by (simp_all add: html_def preamble_def form_def epilogue_def)

text \<open>
  A POST request: the entry point drains the input first. A stream that ends hands its
  concatenated chunks to \<open>main\<close>; a stream that fails hands its error to \<open>onError\<close>,
  and nothing of what was read is used.
\<close>

lemma entry_post:
  "map_of penv ''REQUEST_METHOD'' = Some ''POST'' \<Longrightarrow>
   entry inspect penv (s\<lparr>stdin := foldr Chunk chunks End\<rparr>) =
     main inspect penv (Str (concat (map Buffer_toString chunks))) (s\<lparr>stdin := End\<rparr>)"
  by (simp add: entry_def readPostBody_def drain_chunks)

lemma entry_post_failure:
  "map_of penv ''REQUEST_METHOD'' = Some ''POST'' \<Longrightarrow>
   entry inspect penv (s\<lparr>stdin := foldr Chunk chunks (Failure e)\<rparr>) =
     onError inspect e (s\<lparr>stdin := Failure e\<rparr>)"
  by (simp add: entry_def readPostBody_def drain_chunks)

text \<open>
  The request of the end-to-end scenario, for any rendering of objects: the texts written,
  in order, and the header block at the start of the byte stream.
\<close>

lemma entry_text_hi:
  assumes "concat chunks = ''text=hi''"
  shows \<open>stdout (entry inspect [(''REQUEST_METHOD'', ''POST''), (''SCRIPT_NAME'', ''/app.cgi'')]
                  (start (foldr Chunk chunks End))) =
          [''Content-Type: text/html; charset=UTF-8\<newline>\<newline>'',
           preamble,
           ''<h1>Hello Node.js CGI</h1>'',
           ''<pre> '' @ inspect (Env [(''REQUEST_METHOD'', ''POST''), (''SCRIPT_NAME'', ''/app.cgi'')]) @ '' </pre>'',
           ''<hr>'',
           ''<h2>Post Body</h2>'',
           ''<pre> text=hi </pre>'',
           ''<hr>'',
           ''<h2>POST Test</h2>'',
           ''<form action="/app.cgi" method="POST">\<newline>  <input type="text" name="text" value="">\<newline>  <button name="submit-btn" value="submit-btn-value">Post Submit</button>\<newline></form>'',
           epilogue]
        \<and> prefix ''Content-Type: text/html; charset=UTF-8\<newline>\<newline>''
             (stdout_bytes (entry inspect [(''REQUEST_METHOD'', ''POST''), (''SCRIPT_NAME'', ''/app.cgi'')]
                  (start (foldr Chunk chunks End))))\<close>
proof -
  let ?penv = "[(''REQUEST_METHOD'', ''POST''), (''SCRIPT_NAME'', ''/app.cgi'')]"
  let ?s = "start End :: 'a process"
  have st: "start (foldr Chunk chunks End) = ?s\<lparr>stdin := foldr Chunk chunks End\<rparr>"
    by (simp add: start_def)
  have "list_all (\<lambda>b. (of_char b :: nat) \<le> 0x7F) (concat chunks)"
    by (simp add: assms)
  then have body: "concat (map Buffer_toString chunks) = ''text=hi''"
    by (simp only: concat_Buffer_toString_ascii assms)
  have e: "entry inspect ?penv (start (foldr Chunk chunks End)) =
           main inspect ?penv (Str ''text=hi'') (?s\<lparr>stdin := End\<rparr>)"
    unfolding st by (simp only: entry_post [of ?penv, simplified] body)
  have out: \<open>stdout (main inspect ?penv (Str ''text=hi'') (?s\<lparr>stdin := End\<rparr>)) =
          [''Content-Type: text/html; charset=UTF-8\<newline>\<newline>'',
           preamble,
           ''<h1>Hello Node.js CGI</h1>'',
           ''<pre> '' @ inspect (Env ?penv) @ '' </pre>'',
           ''<hr>'',
           ''<h2>Post Body</h2>'',
           ''<pre> text=hi </pre>'',
           ''<hr>'',
           ''<h2>POST Test</h2>'',
           ''<form action="/app.cgi" method="POST">\<newline>  <input type="text" name="text" value="">\<newline>  <button name="submit-btn" value="submit-btn-value">Post Submit</button>\<newline></form>'',
           epilogue]\<close>
    by (simp add: main_stdout start_def html_def form_def)
  have bytes: "prefix ''Content-Type: text/html; charset=UTF-8\<newline>\<newline>''
      (stdout_bytes (main inspect ?penv (Str ''text=hi'') (?s\<lparr>stdin := End\<rparr>)))"
    by (simp add: stdout_bytes_def out)
  from out bytes show ?thesis
    by (simp only: e simp_thms)
qed

text \<open>The dump of the scenario's environment.\<close>

lemma node_inspect_scenario:
  \<open>node_inspect other (Env [(''REQUEST_METHOD'', ''POST''), (''SCRIPT_NAME'', ''/app.cgi'')]) =
     ''{ REQUEST_METHOD: 'POST', SCRIPT_NAME: '/app.cgi' }''\<close>
  by (simp add: one_line_def env_name_def unescaped_def property_def)

section \<open>The claims\<close>

text \<open>
  C1. For every sequence of one or more calls of the header gate, with any kinds, exactly one
  header block is written, it is the one of the first call's kind, and later calls change
  neither the output nor the state.

  The later calls are indeed without effect (\<open>writeHttpHeader_calls_Cons\<close>), and the claim
  holds when the first kind is no property name of \<^verbatim>\<open>Object.prototype\<close>
  (\<open>writeHttpHeader_calls_own_keys\<close>). It fails for the sequence
  \<^verbatim>\<open>writeHttpHeader('toString'); writeHttpHeader('html')\<close> on a fresh process: the lookup
  finds the inherited function, the text written is \<^verbatim>\<open>undefined\<close>, no header block is
  written at all, and the variable becomes \<^verbatim>\<open>undefined\<close>.
\<close>

theorem header_gate_sequence_inherited_key:
  "writeHttpHeader_calls inspect [''toString'', ''html''] (start input) =
     \<lparr>httpHeader = Undefined, stdout = [''undefined''], stdin = input\<rparr>
   \<and> header_blocks (stdout (writeHttpHeader_calls inspect [''toString'', ''html''] (start input))) = []"
  by (simp add: writeHttpHeader_calls_def writeHttpHeader_def start_def httpHeaders_def
      Object_prototype_def console_log_def header_blocks_def plain_def html_def)

text \<open>
  C2. When \<open>onError\<close> runs while no header has been written (the variable is \<^verbatim>\<open>null\<close>),
  it writes the plain-text header block and then the error after the label \<^verbatim>\<open>Error :\<close>;
  the state becomes \<^verbatim>\<open>plain\<close>, exactly one header block is written, and the HTML error
  block is not.
\<close>

theorem onError_before_header:
  assumes "httpHeader s = Null"
  shows \<open>stdout (onError inspect error s) =
           stdout s @ [''Content-Type: text/plain; charset=UTF-8\<newline>\<newline>'',
                       ''\<newline>Error : '' @ formatValue inspect error]
         \<and> httpHeader (onError inspect error s) = Str ''plain''
         \<and> header_blocks (written s (onError inspect error s)) =
             [''Content-Type: text/plain; charset=UTF-8\<newline>\<newline>'']
         \<and> ''<pre style="color: #f00; font-weight: bold;">Error :<br> '' @ formatValue inspect error @ '' </pre>''
             \<notin> set (written s (onError inspect error s))\<close>
proof -
  have out: "stdout (onError inspect error s) =
           stdout s @ [''Content-Type: text/plain; charset=UTF-8\<newline>\<newline>'',
                       ''\<newline>Error : '' @ formatValue inspect error]"
    and st: "httpHeader (onError inspect error s) = Str ''plain''"
    using assms
    by (simp_all add: onError_def writeHttpHeader_unset httpHeaders_def plain_def html_def Let_def)
  have wr: "written s (onError inspect error s) =
     [''Content-Type: text/plain; charset=UTF-8\<newline>\<newline>'',
      ''\<newline>Error : '' @ formatValue inspect error]"
    using out by (rule written_append)
  show ?thesis
    by (simp add: out st wr header_blocks_def plain_def html_def)
qed

theorem onError_before_header_witness:
  \<open>httpHeader (start End :: unit process) = Null
   \<and> stdout (onError (\<lambda>v. ''[object]'') (Str ''boom'') (start End :: unit process)) =
       [''Content-Type: text/plain; charset=UTF-8\<newline>\<newline>'', ''\<newline>Error : boom'']
   \<and> httpHeader (onError (\<lambda>v. ''[object]'') (Str ''boom'') (start End :: unit process)) = Str ''plain''\<close>
proof -
  have h: "httpHeader (start End :: unit process) = Null"
    by (simp add: start_def)
  from onError_before_header [OF h, where inspect = "\<lambda>v. ''[object]''" and error = "Str ''boom''"] h
  show ?thesis by (simp add: start_def)
qed

text \<open>
  C3. When \<open>onError\<close> runs with the state \<^verbatim>\<open>html\<close>, it writes one text, the
  \<^verbatim>\<open><pre>\<close> element styled as an error and holding the error, and no header block; the
  state stays \<^verbatim>\<open>html\<close>.
\<close>

theorem onError_after_html_header:
  assumes "httpHeader s = Str ''html''"
  shows \<open>stdout (onError inspect error s) =
           stdout s @ [''<pre style="color: #f00; font-weight: bold;">Error :<br> '' @ formatValue inspect error @ '' </pre>'']
         \<and> httpHeader (onError inspect error s) = Str ''html''
         \<and> header_blocks (written s (onError inspect error s)) = []\<close>
proof -
  have out: \<open>stdout (onError inspect error s) =
           stdout s @ [''<pre style="color: #f00; font-weight: bold;">Error :<br> '' @ formatValue inspect error @ '' </pre>'']\<close>
    and st: "httpHeader (onError inspect error s) = Str ''html''"
    using assms by (simp_all add: onError_def html_def Let_def)
  have wr: \<open>written s (onError inspect error s) =
     [''<pre style="color: #f00; font-weight: bold;">Error :<br> '' @ formatValue inspect error @ '' </pre>'']\<close>
    using out by (rule written_append)
  show ?thesis
    by (simp add: out st wr header_blocks_def plain_def html_def)
qed

theorem onError_after_html_header_witness:
  \<open>httpHeader (writeHttpHeader (\<lambda>v. ''[object]'') ''html'' (start End :: unit process)) = Str ''html''
   \<and> stdout (onError (\<lambda>v. ''[object]'') (Str ''boom'')
         (writeHttpHeader (\<lambda>v. ''[object]'') ''html'' (start End :: unit process))) =
       [''Content-Type: text/html; charset=UTF-8\<newline>\<newline>'',
        ''<pre style="color: #f00; font-weight: bold;">Error :<br> boom </pre>'']\<close>
proof -
  let ?s = "writeHttpHeader (\<lambda>v. ''[object]'') ''html'' (start End :: unit process)"
  have h: "httpHeader ?s = Str ''html''"
    by (simp add: writeHttpHeader_def start_def httpHeaders_def html_def Let_def)
  have o: "stdout ?s = [''Content-Type: text/html; charset=UTF-8\<newline>\<newline>'']"
    by (simp add: writeHttpHeader_def start_def httpHeaders_def html_def Let_def)
  from onError_after_html_header [OF h, where inspect = "\<lambda>v. ''[object]''" and error = "Str ''boom''"] h o
  show ?thesis by simp
qed

text \<open>
  C4. For every finite sequence of chunks followed by the end of the input, \<open>readPostBody\<close>
  returns the concatenation of the chunks in their order of arrival, whatever the
  fragmentation, with nothing dropped.

  The loop does wait for the end of the input and keeps the order of the chunks
  (\<open>readPostBody_chunks\<close>), and for ASCII input the result is the input
  (\<open>readPostBody_ascii\<close>, \<open>readPostBody_abc\<close>). But each chunk is decoded by itself: when
  the four bytes \<^verbatim>\<open>61 C3 A9 62\<close> arrive as \<^verbatim>\<open>61 C3\<close> and \<^verbatim>\<open>A9 62\<close>, the two halves of
  the character become two U+FFFD and its bytes are lost, whereas the same bytes in one chunk
  come back unchanged.
\<close>

theorem readPostBody_split_character:
  "fst (readPostBody (start (Chunk [CHR 0x61, CHR 0xC3] (Chunk [CHR 0xA9, CHR 0x62] End)))) =
     Inr [CHR 0x61, CHR 0xEF, CHR 0xBF, CHR 0xBD, CHR 0xEF, CHR 0xBF, CHR 0xBD, CHR 0x62]
   \<and> fst (readPostBody (start (Chunk [CHR 0x61, CHR 0xC3, CHR 0xA9, CHR 0x62] End))) =
     Inr [CHR 0x61, CHR 0xC3, CHR 0xA9, CHR 0x62]"
  by (simp add: readPostBody_def start_def Buffer_toString_def REPLACEMENT_def)

text \<open>
  C5. With the environment \<^verbatim>\<open>{REQUEST_METHOD: "POST", SCRIPT_NAME: "/app.cgi"}\<close> and an
  input stream that delivers \<^verbatim>\<open>text=hi\<close>, the output starts with the html header block,
  holds a dump of the environment that includes \<^verbatim>\<open>REQUEST_METHOD: POST\<close>, a body section
  showing \<^verbatim>\<open>text=hi\<close>, and a form whose action is \<^verbatim>\<open>/app.cgi\<close>.

  The dump is written by \<^verbatim>\<open>console.log('<pre>', process.env, '</pre>')\<close>, which renders
  the object with \<^verbatim>\<open>util.inspect\<close>: the value stands between single quotes, so the output
  holds \<^verbatim>\<open>REQUEST_METHOD: 'POST'\<close> and nowhere the text \<^verbatim>\<open>REQUEST_METHOD: POST\<close>. With
  the quotes, the claim holds, for every way of cutting \<^verbatim>\<open>text=hi\<close> into chunks.
\<close>

theorem end_to_end_post_quoted:
  assumes "concat chunks = ''text=hi''"
  shows \<open>stdout (entry (node_inspect other) [(''REQUEST_METHOD'', ''POST''), (''SCRIPT_NAME'', ''/app.cgi'')]
                  (start (foldr Chunk chunks End))) =
          [''Content-Type: text/html; charset=UTF-8\<newline>\<newline>'',
           preamble,
           ''<h1>Hello Node.js CGI</h1>'',
           ''<pre> { REQUEST_METHOD: 'POST', SCRIPT_NAME: '/app.cgi' } </pre>'',
           ''<hr>'',
           ''<h2>Post Body</h2>'',
           ''<pre> text=hi </pre>'',
           ''<hr>'',
           ''<h2>POST Test</h2>'',
           ''<form action="/app.cgi" method="POST">\<newline>  <input type="text" name="text" value="">\<newline>  <button name="submit-btn" value="submit-btn-value">Post Submit</button>\<newline></form>'',
           epilogue]
        \<and> prefix ''Content-Type: text/html; charset=UTF-8\<newline>\<newline>''
             (stdout_bytes (entry (node_inspect other) [(''REQUEST_METHOD'', ''POST''), (''SCRIPT_NAME'', ''/app.cgi'')]
                  (start (foldr Chunk chunks End))))\<close>
proof -
  let ?penv = "[(''REQUEST_METHOD'', ''POST''), (''SCRIPT_NAME'', ''/app.cgi'')]"
  have d: \<open>node_inspect other (Env ?penv) = ''{ REQUEST_METHOD: 'POST', SCRIPT_NAME: '/app.cgi' }''\<close>
    by (rule node_inspect_scenario)
  from entry_text_hi [OF assms, of "node_inspect other"]
  show ?thesis by (simp only: d append.simps)
qed

theorem end_to_end_post_quoted_witness:
  \<open>concat [''text='', ''hi''] = ''text=hi''
   \<and> stdout (entry (node_inspect (\<lambda>v. ''[object]'')) [(''REQUEST_METHOD'', ''POST''), (''SCRIPT_NAME'', ''/app.cgi'')]
                  (start (Chunk ''text='' (Chunk ''hi'' End)) :: unit process)) =
          [''Content-Type: text/html; charset=UTF-8\<newline>\<newline>'',
           preamble,
           ''<h1>Hello Node.js CGI</h1>'',
           ''<pre> { REQUEST_METHOD: 'POST', SCRIPT_NAME: '/app.cgi' } </pre>'',
           ''<hr>'',
           ''<h2>Post Body</h2>'',
           ''<pre> text=hi </pre>'',
           ''<hr>'',
           ''<h2>POST Test</h2>'',
           ''<form action="/app.cgi" method="POST">\<newline>  <input type="text" name="text" value="">\<newline>  <button name="submit-btn" value="submit-btn-value">Post Submit</button>\<newline></form>'',
           epilogue]\<close>
proof -
  have h: "concat [''text='', ''hi''] = ''text=hi''" by simp
  from end_to_end_post_quoted [OF h, where other = "\<lambda>v::unit jsval. ''[object]''"] h
  show ?thesis by simp
qed

theorem end_to_end_post_unquoted_counterexample:
  "\<not> sublist ''REQUEST_METHOD: POST''
       (stdout_bytes (entry (node_inspect undefined)
          [(''REQUEST_METHOD'', ''POST''), (''SCRIPT_NAME'', ''/app.cgi'')]
          (start (Chunk ''text=hi'' End) :: unit process)))"
proof -
  let ?penv = "[(''REQUEST_METHOD'', ''POST''), (''SCRIPT_NAME'', ''/app.cgi'')]"
  have h: "concat [''text=hi''] = ''text=hi''" by simp
  have d: \<open>node_inspect undefined (Env ?penv) = ''{ REQUEST_METHOD: 'POST', SCRIPT_NAME: '/app.cgi' }''\<close>
    by (rule node_inspect_scenario)
  have f: "foldr Chunk [''text=hi''] End = (Chunk ''text=hi'' End :: unit stream)" by simp
  from entry_text_hi [OF h, of "node_inspect undefined :: unit jsval \<Rightarrow> string", unfolded d f]
  have out: \<open>stdout (entry (node_inspect undefined) ?penv (start (Chunk ''text=hi'' End) :: unit process)) =
          [''Content-Type: text/html; charset=UTF-8\<newline>\<newline>'',
           preamble,
           ''<h1>Hello Node.js CGI</h1>'',
           ''<pre> { REQUEST_METHOD: 'POST', SCRIPT_NAME: '/app.cgi' } </pre>'',
           ''<hr>'',
           ''<h2>Post Body</h2>'',
           ''<pre> text=hi </pre>'',
           ''<hr>'',
           ''<h2>POST Test</h2>'',
           ''<form action="/app.cgi" method="POST">\<newline>  <input type="text" name="text" value="">\<newline>  <button name="submit-btn" value="submit-btn-value">Post Submit</button>\<newline></form>'',
           epilogue]\<close>
    by simp
  show ?thesis
    unfolding stdout_bytes_def out preamble_def epilogue_def
    by (simp add: sublist_code)
qed

text \<open>
  C6. A call of the header gate with a kind that is neither \<^verbatim>\<open>plain\<close> nor \<^verbatim>\<open>html\<close>,
  before any header was written, writes the plain-text header block and sets the state to
  \<^verbatim>\<open>plain\<close>.

  This holds for every kind that \<^verbatim>\<open>Object.prototype\<close> does not define
  (\<open>or_plain_own_keys\<close>). The kind \<^verbatim>\<open>'toString'\<close> is neither \<^verbatim>\<open>plain\<close> nor
  \<^verbatim>\<open>html\<close>, yet the call writes the text \<^verbatim>\<open>undefined\<close> and leaves the variable
  \<^verbatim>\<open>undefined\<close>.
\<close>

theorem writeHttpHeader_inherited_key:
  "''toString'' \<noteq> type plain \<and> ''toString'' \<noteq> type html
   \<and> writeHttpHeader inspect ''toString'' (start input) =
       \<lparr>httpHeader = Undefined, stdout = [''undefined''], stdin = input\<rparr>"
  by (simp add: writeHttpHeader_def start_def httpHeaders_def
      Object_prototype_def console_log_def plain_def html_def)

text \<open>
  C7. On the first call (the variable is \<^verbatim>\<open>null\<close>), \<open>writeHttpHeader\<close> with the kind
  \<^verbatim>\<open>plain\<close> writes exactly the line \<^verbatim>\<open>Content-Type: text/plain; charset=UTF-8\<close> and
  the blank line that ends the header block, and with the kind \<^verbatim>\<open>html\<close> exactly the line
  \<^verbatim>\<open>Content-Type: text/html; charset=UTF-8\<close> and the blank line. On the byte stream the
  block is followed by the line feed that \<^verbatim>\<open>console.log\<close> appends to every text; it comes
  after the blank line, hence after the header block.
\<close>

theorem writeHttpHeader_first_call:
  assumes "httpHeader s = Null"
  shows "stdout (writeHttpHeader inspect ''plain'' s) =
           stdout s @ [''Content-Type: text/plain; charset=UTF-8\<newline>\<newline>'']
       \<and> stdout (writeHttpHeader inspect ''html'' s) =
           stdout s @ [''Content-Type: text/html; charset=UTF-8\<newline>\<newline>'']
       \<and> stdout_bytes (writeHttpHeader inspect ''plain'' s) =
           stdout_bytes s @ ''Content-Type: text/plain; charset=UTF-8\<newline>\<newline>'' @ ''\<newline>''
       \<and> stdout_bytes (writeHttpHeader inspect ''html'' s) =
           stdout_bytes s @ ''Content-Type: text/html; charset=UTF-8\<newline>\<newline>'' @ ''\<newline>''"
  using assms
  by (simp add: writeHttpHeader_unset httpHeaders_def plain_def html_def stdout_bytes_def)

theorem writeHttpHeader_first_call_witness:
  "httpHeader (start End :: unit process) = Null
   \<and> stdout (writeHttpHeader (\<lambda>v. ''[object]'') ''plain'' (start End :: unit process)) =
       [''Content-Type: text/plain; charset=UTF-8\<newline>\<newline>'']
   \<and> stdout (writeHttpHeader (\<lambda>v. ''[object]'') ''html'' (start End :: unit process)) =
       [''Content-Type: text/html; charset=UTF-8\<newline>\<newline>'']"
proof -
  have h: "httpHeader (start End :: unit process) = Null"
    by (simp add: start_def)
  from writeHttpHeader_first_call [OF h, where inspect = "\<lambda>v. ''[object]''"] h
  show ?thesis by (simp add: start_def)
qed

text \<open>
  C8. When \<^verbatim>\<open>REQUEST_METHOD\<close> is not \<^verbatim>\<open>POST\<close> (or is not set), the entry point is the
  main flow without a body: the input stream is left as it was, and the output and the header
  state are the same for any two input streams.
\<close>

theorem no_body_path:
  assumes "map_of penv ''REQUEST_METHOD'' \<noteq> Some ''POST''"
  shows "entry inspect penv s = main inspect penv Undefined s
       \<and> stdin (entry inspect penv s) = stdin s
       \<and> stdout (entry inspect penv (s\<lparr>stdin := input1\<rparr>)) =
           stdout (entry inspect penv (s\<lparr>stdin := input2\<rparr>))
       \<and> httpHeader (entry inspect penv (s\<lparr>stdin := input1\<rparr>)) =
           httpHeader (entry inspect penv (s\<lparr>stdin := input2\<rparr>))"
proof -
  have e: "entry inspect penv t = main inspect penv Undefined t" for t :: "'a process"
    using assms by (simp add: entry_def)
  show ?thesis
    by (simp add: e main_stdin main_stdout main_httpHeader)
qed

theorem no_body_path_witness:
  "map_of [(''REQUEST_METHOD'', ''GET'')] ''REQUEST_METHOD'' \<noteq> Some ''POST''
   \<and> stdin (entry (\<lambda>v. ''[object]'') [(''REQUEST_METHOD'', ''GET'')]
              (start (Chunk ''text=hi'' End) :: unit process)) =
       stdin (start (Chunk ''text=hi'' End) :: unit process)
   \<and> stdout (entry (\<lambda>v. ''[object]'') [(''REQUEST_METHOD'', ''GET'')]
              ((start (Chunk ''text=hi'' End) :: unit process)\<lparr>stdin := Chunk ''a'' End\<rparr>)) =
       stdout (entry (\<lambda>v. ''[object]'') [(''REQUEST_METHOD'', ''GET'')]
              ((start (Chunk ''text=hi'' End) :: unit process)\<lparr>stdin := Failure (Str ''closed'')\<rparr>))"
proof -
  have h: "map_of [(''REQUEST_METHOD'', ''GET'')] ''REQUEST_METHOD'' \<noteq> Some ''POST''"
    by simp
  from no_body_path [OF h, where inspect = "\<lambda>v. ''[object]''"
      and s = "start (Chunk ''text=hi'' End) :: unit process"
      and ?input1.0 = "Chunk ''a'' End" and ?input2.0 = "Failure (Str ''closed'')"] h
  show ?thesis by blast
qed

text \<open>
  C9. A POST request whose input ends with an empty body gives the same output and header
  state as the main flow without a body; and the heading of the body section is among the
  texts \<open>main\<close> writes exactly when the body is a non-empty string (not for the empty
  string, not for a missing body).
\<close>

theorem empty_post_body:
  assumes "map_of penv ''REQUEST_METHOD'' = Some ''POST''" and "concat chunks = []"
  shows "stdout (entry inspect penv (s\<lparr>stdin := foldr Chunk chunks End\<rparr>)) =
           stdout (main inspect penv Undefined s)
       \<and> httpHeader (entry inspect penv (s\<lparr>stdin := foldr Chunk chunks End\<rparr>)) =
           httpHeader (main inspect penv Undefined s)
       \<and> (\<forall>body. (''<h2>Post Body</h2>'' \<in> set (written s (main inspect penv (Str body) s)))
                  = (body \<noteq> []))
       \<and> ''<h2>Post Body</h2>'' \<notin> set (written s (main inspect penv Undefined s))"
proof -
  have e: "entry inspect penv (s\<lparr>stdin := foldr Chunk chunks End\<rparr>) =
           main inspect penv (Str []) (s\<lparr>stdin := End\<rparr>)"
  proof -
    have "list_all (\<lambda>b. (of_char b :: nat) \<le> 0x7F) (concat chunks)"
      by (simp add: assms(2))
    then have "concat (map Buffer_toString chunks) = []"
      by (simp only: concat_Buffer_toString_ascii assms(2))
    then show ?thesis
      by (simp only: entry_post [OF assms(1)])
  qed
  have same: "stdout (entry inspect penv (s\<lparr>stdin := foldr Chunk chunks End\<rparr>)) =
           stdout (main inspect penv Undefined s)"
    "httpHeader (entry inspect penv (s\<lparr>stdin := foldr Chunk chunks End\<rparr>)) =
           httpHeader (main inspect penv Undefined s)"
    by (simp_all add: e main_stdout main_httpHeader)
  have iff: "(''<h2>Post Body</h2>'' \<in> set (written s (main inspect penv (Str body) s)))
                  = (body \<noteq> [])" for body
    by (simp add: main_written Post_Body_heading_elsewhere)
  have no: "''<h2>Post Body</h2>'' \<notin> set (written s (main inspect penv Undefined s))"
    by (simp add: main_written Post_Body_heading_elsewhere)
  from same iff no show ?thesis by blast
qed

theorem empty_post_body_witness:
  "map_of [(''REQUEST_METHOD'', ''POST'')] ''REQUEST_METHOD'' = Some ''POST''
   \<and> concat [[], []] = ([] :: string)
   \<and> stdout (entry (\<lambda>v. ''[object]'') [(''REQUEST_METHOD'', ''POST'')]
              ((start End :: unit process)\<lparr>stdin := foldr Chunk [[], []] End\<rparr>)) =
       stdout (main (\<lambda>v. ''[object]'') [(''REQUEST_METHOD'', ''POST'')] Undefined
              (start End :: unit process))
   \<and> ''<h2>Post Body</h2>'' \<in> set (written (start End :: unit process)
         (main (\<lambda>v. ''[object]'') [(''REQUEST_METHOD'', ''POST'')] (Str ''text=hi'') (start End)))
   \<and> ''<h2>Post Body</h2>'' \<notin> set (written (start End :: unit process)
         (main (\<lambda>v. ''[object]'') [(''REQUEST_METHOD'', ''POST'')] (Str []) (start End)))"
proof -
  have h1: "map_of [(''REQUEST_METHOD'', ''POST'')] ''REQUEST_METHOD'' = Some ''POST''"
    by simp
  have h2: "concat [[], []] = ([] :: string)"
    by simp
  from empty_post_body [OF h1 h2, where inspect = "\<lambda>v. ''[object]''"
      and s = "start End :: unit process"] h1 h2
  show ?thesis by simp
qed

text \<open>
  C10. When the environment has no key \<^verbatim>\<open>SCRIPT_NAME\<close>, the main flow runs through to
  the epilogue and the form it writes has the attribute \<^verbatim>\<open>action="undefined"\<close>.
\<close>

theorem main_without_SCRIPT_NAME:
  assumes "''SCRIPT_NAME'' \<notin> fst ` set penv"
  shows \<open>written s (main inspect penv postBody s) =
     (if httpHeader s = Null then [''Content-Type: text/html; charset=UTF-8\<newline>\<newline>''] else []) @
     [preamble, ''<h1>Hello Node.js CGI</h1>'', ''<pre> '' @ inspect (Env penv) @ '' </pre>''] @
     (if truthy postBody
      then [''<hr>'', ''<h2>Post Body</h2>'', ''<pre> '' @ formatValue inspect postBody @ '' </pre>'']
      else []) @
     [''<hr>'', ''<h2>POST Test</h2>'',
      ''<form action="undefined" method="POST">\<newline>  <input type="text" name="text" value="">\<newline>  <button name="submit-btn" value="submit-btn-value">Post Submit</button>\<newline></form>'',
      epilogue]\<close>
proof -
  have "map_of penv ''SCRIPT_NAME'' = None"
    using assms by (simp add: map_of_eq_None_iff)
  then have \<open>form penv = ''<form action="undefined" method="POST">\<newline>  <input type="text" name="text" value="">\<newline>  <button name="submit-btn" value="submit-btn-value">Post Submit</button>\<newline></form>''\<close>
    by (simp add: form_def)
  then show ?thesis
    by (simp add: main_written html_def)
qed

theorem main_without_SCRIPT_NAME_witness:
  \<open>''SCRIPT_NAME'' \<notin> fst ` set [(''REQUEST_METHOD'', ''GET'')]
   \<and> written (start End :: unit process)
        (main (\<lambda>v. ''[object]'') [(''REQUEST_METHOD'', ''GET'')] Undefined (start End)) =
     [''Content-Type: text/html; charset=UTF-8\<newline>\<newline>'',
      preamble, ''<h1>Hello Node.js CGI</h1>'', ''<pre> [object] </pre>'',
      ''<hr>'', ''<h2>POST Test</h2>'',
      ''<form action="undefined" method="POST">\<newline>  <input type="text" name="text" value="">\<newline>  <button name="submit-btn" value="submit-btn-value">Post Submit</button>\<newline></form>'',
      epilogue]\<close>
proof -
  have h: "''SCRIPT_NAME'' \<notin> fst ` set [(''REQUEST_METHOD'', ''GET'')]"
    by simp
  have n: "httpHeader (start End :: unit process) = Null"
    by (simp add: start_def)
  from main_without_SCRIPT_NAME [OF h, where inspect = "\<lambda>v. ''[object]''"
      and s = "start End :: unit process" and postBody = Undefined] h n
  show ?thesis by simp
qed

end
